theory Spec2Isabelle
  imports Main "HOL-Library.AList"
begin

section \<open>Python values shared by the modules\<close>

text \<open>
  An exception that \<^verbatim>\<open>except Exception\<close> catches. \<open>ValueError\<close> and \<open>OtherError\<close>
  carry the text that \<^verbatim>\<open>str(e)\<close> yields; \<open>KeyError\<close> carries the labels pandas did
  not find. \<open>OtherError\<close> stands for whatever a third-party call raises (a Playwright
  timeout, a store API error, an OS error).
\<close>

datatype exn = ValueError string | KeyError "string list" | OtherError string

text \<open>
  \<^verbatim>\<open>str(e)\<close>. For a \<open>KeyError\<close> the wording is pandas' own; only the labels
  are kept here and no statement below depends on the wording.
\<close>

fun str_exn :: "exn \<Rightarrow> string" where
  "str_exn (ValueError m) = m"
| "str_exn (KeyError ks) = concat (map (\<lambda>k. k @ '' '') ks) @ ''not in index''"
| "str_exn (OtherError m) = m"

section \<open>app/data\_processor.py\<close>

text \<open>
  A pandas table: the column labels, and the rows in order, each with its index label and
  its cells. A cell is \<open>None\<close> when pandas counts it as null (an empty spreadsheet cell),
  \<open>Some v\<close> otherwise. Column labels may repeat, as pandas allows.
\<close>

type_synonym 'v cell = "'v option"

record 'v dataframe =
  columns :: "string list"
  rows :: "(int \<times> 'v cell list) list"

definition COLUMNS_TO_KEEP :: "string list" where
  "COLUMNS_TO_KEEP =
     [''CPT* HCPS'', ''Description'', ''Physicians' Fees      North'', ''ASC Fees North'']"

definition COLUMN_RENAME :: "(string \<times> string) list" where
  "COLUMN_RENAME =
     [(''CPT* HCPS'', ''cpt_hcps''),
      (''Description'', ''description''),
      (''Physicians' Fees      North'', ''physicians_fees_north''),
      (''ASC Fees North'', ''asc_fees_north'')]"

text \<open>The entries of a row (or of the header itself) that stand under the label \<open>k\<close>.\<close>

definition under_label :: "string list \<Rightarrow> string \<Rightarrow> 'a list \<Rightarrow> 'a list" where
  "under_label cols k xs = map snd (filter (\<lambda>cx. fst cx = k) (zip cols xs))"

text \<open>
  Positional take along the column axis for a list of labels: for each requested label
  in turn, every column that carries it.
\<close>

definition take_labels :: "string list \<Rightarrow> string list \<Rightarrow> 'a list \<Rightarrow> 'a list" where
  "take_labels cols keys xs = concat (map (\<lambda>k. under_label cols k xs) keys)"

definition not_found :: "string list \<Rightarrow> string list \<Rightarrow> string list" where
  "not_found cols keys = filter (\<lambda>k. k \<notin> set cols) keys"

text \<open>\<^verbatim>\<open>df[keys]\<close> for a list of labels: a \<open>KeyError\<close> when a label is not a column.\<close>

definition getitem :: "'v dataframe \<Rightarrow> string list \<Rightarrow> exn + 'v dataframe" where
  "getitem df keys =
     (if not_found (columns df) keys \<noteq> [] then Inl (KeyError (not_found (columns df) keys))
      else Inr \<lparr>columns = take_labels (columns df) keys (columns df),
                rows = map (\<lambda>(i, r). (i, take_labels (columns df) keys r)) (rows df)\<rparr>)"

text \<open>\<^verbatim>\<open>df.rename(columns=mapper)\<close>: a label the mapper does not have stays.\<close>

definition rename :: "(string \<times> string) list \<Rightarrow> 'v dataframe \<Rightarrow> 'v dataframe" where
  "rename mapper df =
     df\<lparr>columns := map (\<lambda>c. case map_of mapper c of Some c' \<Rightarrow> c' | None \<Rightarrow> c) (columns df)\<rparr>"

fun notna :: "'v cell \<Rightarrow> bool" where
  "notna None = False"
| "notna (Some v) = True"

text \<open>
  \<^verbatim>\<open>df.dropna(subset=labels)\<close> (how = any): a row stays when every cell under the
  labels is not null; the rows keep their index labels.
\<close>

definition dropna_subset :: "string list \<Rightarrow> 'v dataframe \<Rightarrow> exn + 'v dataframe" where
  "dropna_subset labels df =
     (if not_found (columns df) labels \<noteq> [] then Inl (KeyError (not_found (columns df) labels))
      else Inr (df\<lparr>rows :=
             filter (\<lambda>(i, r). list_all notna (take_labels (columns df) labels r)) (rows df)\<rparr>))"

text \<open>\<^verbatim>\<open>df.dropna(how='all')\<close>: a row stays when some cell of it is not null.\<close>

definition dropna_all :: "'v dataframe \<Rightarrow> 'v dataframe" where
  "dropna_all df = df\<lparr>rows := filter (\<lambda>(i, r). list_ex notna r) (rows df)\<rparr>"

text \<open>\<^verbatim>\<open>df.reset_index(drop=True)\<close>: the index labels become 0, 1, 2, ...\<close>

definition reset_index :: "'v dataframe \<Rightarrow> 'v dataframe" where
  "reset_index df =
     df\<lparr>rows := zip (map int [0..<length (rows df)]) (map snd (rows df))\<rparr>"

definition clean_data :: "'v dataframe \<Rightarrow> exn + 'v dataframe" where
  "clean_data df =
     (case getitem df COLUMNS_TO_KEEP of
        Inl e \<Rightarrow> Inl e
      | Inr selected \<Rightarrow>
          (case dropna_subset [''cpt_hcps''] (rename COLUMN_RENAME selected) of
             Inl e \<Rightarrow> Inl e
           | Inr with_code \<Rightarrow> Inr (reset_index (dropna_all with_code))))"

text \<open>
  \<^verbatim>\<open>df.to_dict('records')\<close>: one dict per row, keyed by column label. A Python dict
  keeps a key at the place of its first insertion and holds the value stored last.
\<close>

definition dict_of :: "(string \<times> 'a) list \<Rightarrow> (string \<times> 'a) list" where
  "dict_of kvs = fold (\<lambda>kv d. AList.update (fst kv) (snd kv) d) kvs []"

definition to_dict_records :: "'v dataframe \<Rightarrow> (string \<times> 'v cell) list list" where
  "to_dict_records df = map (\<lambda>(i, r). dict_of (zip (columns df) r)) (rows df)"

section \<open>app/database.py\<close>

text \<open>
  The store client library is third-party code: it is a parameter. Every call takes the
  state of the outside world (the remote table, the network) and returns the new one
  with either the exception it raised or its value. The response of an insert is the
  list of rows the store reports back.
\<close>

type_synonym 'v py_dict = "(string \<times> 'v cell) list"

datatype 'v payload = One "'v py_dict" | Many "'v py_dict list"

record ('s, 'c, 'v) supabase =
  create_client :: "string \<Rightarrow> string \<Rightarrow> 's \<Rightarrow> (exn + 'c) \<times> 's"
  insert_execute :: "'c \<Rightarrow> string \<Rightarrow> 'v payload \<Rightarrow> 's \<Rightarrow> (exn + 'v py_dict list) \<times> 's"

record 'c SupabaseHandler =
  supabase_url :: string
  supabase_key :: string
  table_name :: string
  client :: 'c

definition missing_credentials :: exn where
  "missing_credentials = ValueError ''Missing Supabase credentials in environment variables''"

text \<open>
  \<^verbatim>\<open>SupabaseHandler.__init__\<close>. \<open>environ\<close> is the process environment read by
  \<^verbatim>\<open>os.getenv\<close>; \<^verbatim>\<open>not x\<close> holds of an absent variable and of the empty string.
\<close>

definition SupabaseHandler_init ::
  "('s, 'c, 'v) supabase \<Rightarrow> (string \<rightharpoonup> string) \<Rightarrow> 's \<Rightarrow> (exn + 'c SupabaseHandler) \<times> 's" where
  "SupabaseHandler_init lib environ s =
     (case (environ ''SUPABASE_URL'', environ ''SUPABASE_KEY'') of
        (Some url, Some key) \<Rightarrow>
          if url = [] \<or> key = [] then (Inl missing_credentials, s)
          else (case create_client lib url key s of
                  (Inl e, s') \<Rightarrow> (Inl e, s')
                | (Inr c, s') \<Rightarrow>
                    (Inr \<lparr>supabase_url = url, supabase_key = key,
                          table_name = ''test_cleaning'', client = c\<rparr>, s'))
      | _ \<Rightarrow> (Inl missing_credentials, s))"

record insert_summary =
  status :: string
  records_inserted :: nat
  table :: string

record error_entry =
  record_index :: nat
  error :: string

record one_by_one_summary = insert_summary +
  records_failed :: nat
  errors :: "error_entry list"

definition insert_records ::
  "('s, 'c, 'v) supabase \<Rightarrow> 'c SupabaseHandler \<Rightarrow> 'v py_dict list \<Rightarrow> 's
     \<Rightarrow> (exn + insert_summary) \<times> 's" where
  "insert_records lib self records s =
     (case insert_execute lib (client self) (table_name self) (Many records) s of
        (Inl e, s') \<Rightarrow> (Inl e, s')
      | (Inr response, s') \<Rightarrow>
          (Inr \<lparr>status = ''success'', records_inserted = length records,
                table = table_name self\<rparr>, s'))"

text \<open>
  The loop of \<^verbatim>\<open>insert_records_one_by_one\<close> over \<^verbatim>\<open>enumerate(records, 1)\<close>:
  \<open>idx\<close> is the number of the record at the head, the triple holds
  \<open>success_count\<close>, \<open>failed_count\<close> and \<open>errors\<close>.
\<close>

fun one_by_one_loop ::
  "('s, 'c, 'v) supabase \<Rightarrow> 'c SupabaseHandler \<Rightarrow> nat \<Rightarrow> 'v py_dict list
     \<Rightarrow> nat \<times> nat \<times> error_entry list \<Rightarrow> 's \<Rightarrow> (nat \<times> nat \<times> error_entry list) \<times> 's" where
  "one_by_one_loop lib self idx [] acc s = (acc, s)"
| "one_by_one_loop lib self idx (record # rest) (success_count, failed_count, errs) s =
     (case insert_execute lib (client self) (table_name self) (One record) s of
        (Inr response, s') \<Rightarrow>
          one_by_one_loop lib self (Suc idx) rest (success_count + 1, failed_count, errs) s'
      | (Inl e, s') \<Rightarrow>
          one_by_one_loop lib self (Suc idx) rest
            (success_count, failed_count + 1,
             errs @ [\<lparr>record_index = idx, error = str_exn e\<rparr>]) s')"

definition insert_records_one_by_one ::
  "('s, 'c, 'v) supabase \<Rightarrow> 'c SupabaseHandler \<Rightarrow> 'v py_dict list \<Rightarrow> 's
     \<Rightarrow> (exn + one_by_one_summary) \<times> 's" where
  "insert_records_one_by_one lib self records s =
     (case one_by_one_loop lib self 1 records (0, 0, []) s of
        ((success_count, failed_count, errs), s') \<Rightarrow>
          (Inr \<lparr>status = ''completed'', records_inserted = success_count,
                table = table_name self, records_failed = failed_count,
                errors = take 10 errs\<rparr>, s'))"

section \<open>app/scraper.py\<close>

text \<open>
  The browser automation library is third-party code as well. One request makes each of
  its calls at most once, so the library is given by what each call does: \<open>None\<close> when
  it returns, \<open>Some e\<close> when it raises \<open>e\<close>; the click that starts the download
  yields the file name the site suggests. The resources a process holds are listed in
  the order they were acquired, newest first.
\<close>

datatype resource = Playwright | Browser | Context

record playwright_api =
  start :: "exn option"
  launch :: "exn option"
  new_context :: "exn option"
  new_page :: "exn option"
  goto :: "exn option"
  wait_for :: "exn option"
  click_expect_download :: "exn + string"
  save_as :: "exn option"
  context_close :: "exn option"
  browser_close :: "exn option"
  playwright_stop :: "exn option"

record NJMedicalScraper =
  download_dir :: string
  url :: string

text \<open>
  \<^verbatim>\<open>NJMedicalScraper.__init__\<close>: \<open>mkdir\<close> is what creating the directory does;
  a path object is never falsy, so \<^verbatim>\<open>download_dir or Path("downloads")\<close> falls back
  only for \<^verbatim>\<open>None\<close>.
\<close>

definition NJMedicalScraper_init :: "exn option \<Rightarrow> string option \<Rightarrow> exn + NJMedicalScraper" where
  "NJMedicalScraper_init mkdir dir =
     (case mkdir of
        Some e \<Rightarrow> Inl e
      | None \<Rightarrow>
          Inr \<lparr>download_dir = (case dir of Some d \<Rightarrow> d | None \<Rightarrow> ''downloads''),
               url = ''https://www.nj.gov/dobi/pipinfo/aicrapg.htm''\<rparr>)"

definition setup_browser :: "playwright_api \<Rightarrow> resource list \<Rightarrow> (exn + unit) \<times> resource list" where
  "setup_browser api held =
     (case start api of
        Some e \<Rightarrow> (Inl e, held)
      | None \<Rightarrow>
     (case launch api of
        Some e \<Rightarrow> (Inl e, Playwright # held)
      | None \<Rightarrow>
     (case new_context api of
        Some e \<Rightarrow> (Inl e, Browser # Playwright # held)
      | None \<Rightarrow>
     (case new_page api of
        Some e \<Rightarrow> (Inl e, Context # Browser # Playwright # held)
      | None \<Rightarrow> (Inr (), Context # Browser # Playwright # held)))))"

text \<open>The body of the \<^verbatim>\<open>try\<close> block: navigate, find the link, click, save.\<close>

definition download_steps :: "NJMedicalScraper \<Rightarrow> playwright_api \<Rightarrow> exn + string" where
  "download_steps self api =
     (case goto api of
        Some e \<Rightarrow> Inl e
      | None \<Rightarrow>
     (case wait_for api of
        Some e \<Rightarrow> Inl e
      | None \<Rightarrow>
     (case click_expect_download api of
        Inl e \<Rightarrow> Inl e
      | Inr filename \<Rightarrow>
     (case save_as api of
        Some e \<Rightarrow> Inl e
      | None \<Rightarrow> Inr (download_dir self @ ''/'' @ filename)))))"

text \<open>
  The \<^verbatim>\<open>finally\<close> block. A release call that raises leaves the later ones undone
  and its resource listed.
\<close>

definition release_all :: "playwright_api \<Rightarrow> resource list \<Rightarrow> exn option \<times> resource list" where
  "release_all api held =
     (case context_close api of
        Some e \<Rightarrow> (Some e, held)
      | None \<Rightarrow>
     (case browser_close api of
        Some e \<Rightarrow> (Some e, remove1 Context held)
      | None \<Rightarrow>
     (case playwright_stop api of
        Some e \<Rightarrow> (Some e, remove1 Browser (remove1 Context held))
      | None \<Rightarrow> (None, remove1 Playwright (remove1 Browser (remove1 Context held))))))"

text \<open>
  \<^verbatim>\<open>download_excel_file\<close>: the \<^verbatim>\<open>except\<close> clause logs and re-raises, so the
  outcome of the \<^verbatim>\<open>try\<close> block stands unless the \<^verbatim>\<open>finally\<close> block raises.
\<close>

definition download_excel_file ::
  "NJMedicalScraper \<Rightarrow> playwright_api \<Rightarrow> resource list \<Rightarrow> (exn + string) \<times> resource list" where
  "download_excel_file self api held =
     (case setup_browser api held of
        (Inl e, held1) \<Rightarrow> (Inl e, held1)
      | (Inr u, held1) \<Rightarrow>
          (case release_all api held1 of
             (Some e, held2) \<Rightarrow> (Inl e, held2)
           | (None, held2) \<Rightarrow> (download_steps self api, held2)))"

section \<open>app/main.py\<close>

text \<open>
  What an endpoint needs from outside the repository: the two libraries, the file
  system (\<open>mkdir\<close>, \<open>read_excel\<close> by path, \<open>unlink\<close> by path), the process
  environment and the clock. The state of the outside world is the list of browser
  resources held together with the state of the store.
\<close>

record ('s, 'c, 'v) deps =
  playwright :: playwright_api
  mkdir :: "exn option"
  read_excel :: "string \<Rightarrow> exn + 'v dataframe"
  environ :: "string \<rightharpoonup> string"
  store_lib :: "('s, 'c, 'v) supabase"
  unlink :: "string \<Rightarrow> exn option"
  utcnow_isoformat :: string

text \<open>\<^verbatim>\<open>DataProcessor.process_file\<close>: read, then clean.\<close>

definition process_file :: "(string \<Rightarrow> exn + 'v dataframe) \<Rightarrow> string \<Rightarrow> exn + 'v dataframe" where
  "process_file reader file_path =
     (case reader file_path of
        Inl e \<Rightarrow> Inl e
      | Inr df \<Rightarrow> clean_data df)"

text \<open>
  An \<^verbatim>\<open>HTTPException\<close> carries the status code and the detail, which the framework
  sends as the JSON body \<^verbatim>\<open>{"detail": ...}\<close>: a string, or an object with fields.
\<close>

datatype detail = Text string | Fields "(string \<times> string) list"

record HTTPException =
  exc_status_code :: nat
  exc_detail :: detail

record 'a JSONResponse =
  status_code :: nat
  content :: 'a

datatype details = Bulk insert_summary | OneByOne one_by_one_summary

record scrape_content =
  content_status :: string
  content_message :: string
  content_details :: details
  content_timestamp :: string

text \<open>The body of the \<^verbatim>\<open>try\<close> block of \<^verbatim>\<open>scrape_and_store\<close>.\<close>

definition scrape_and_store_try ::
  "('s, 'c, 'v) deps \<Rightarrow> string \<Rightarrow> resource list \<times> 's
     \<Rightarrow> (exn + scrape_content JSONResponse) \<times> (resource list \<times> 's)" where
  "scrape_and_store_try d insert_method w =
     (case NJMedicalScraper_init (mkdir d) None of
        Inl e \<Rightarrow> (Inl e, w)
      | Inr scraper \<Rightarrow>
     (case download_excel_file scraper (playwright d) (fst w) of
        (Inl e, held) \<Rightarrow> (Inl e, (held, snd w))
      | (Inr file_path, held) \<Rightarrow>
     (case process_file (read_excel d) file_path of
        Inl e \<Rightarrow> (Inl e, (held, snd w))
      | Inr df_cleaned \<Rightarrow>
     (case SupabaseHandler_init (store_lib d) (environ d) (snd w) of
        (Inl e, s1) \<Rightarrow> (Inl e, (held, s1))
      | (Inr db_handler, s1) \<Rightarrow>
     (case (if insert_method = ''one_by_one''
            then map_prod (map_sum id OneByOne) id
                   (insert_records_one_by_one (store_lib d) db_handler
                      (to_dict_records df_cleaned) s1)
            else map_prod (map_sum id Bulk) id
                   (insert_records (store_lib d) db_handler
                      (to_dict_records df_cleaned) s1)) of
        (Inl e, s2) \<Rightarrow> (Inl e, (held, s2))
      | (Inr result, s2) \<Rightarrow>
     (case unlink d file_path of
        Some e \<Rightarrow> (Inl e, (held, s2))
      | None \<Rightarrow>
          (Inr \<lparr>status_code = 200,
                content = \<lparr>content_status = ''success'',
                            content_message = ''Data scraped and stored successfully'',
                            content_details = result,
                            content_timestamp = utcnow_isoformat d\<rparr>\<rparr>,
           (held, s2))))))))"

text \<open>\<^verbatim>\<open>scrape_and_store\<close>: the \<^verbatim>\<open>except Exception\<close> clause around that body.\<close>

definition scrape_and_store ::
  "('s, 'c, 'v) deps \<Rightarrow> string \<Rightarrow> resource list \<times> 's
     \<Rightarrow> (HTTPException + scrape_content JSONResponse) \<times> (resource list \<times> 's)" where
  "scrape_and_store d insert_method w =
     (case scrape_and_store_try d insert_method w of
        (Inl e, w') \<Rightarrow>
          (Inl \<lparr>exc_status_code = 500,
                exc_detail = Fields [(''error'', str_exn e),
                                     (''message'', ''Failed to scrape and store data'')]\<rparr>, w')
      | (Inr response, w') \<Rightarrow> (Inr response, w'))"

record 'v download_info =
  info_status :: string
  info_rows :: nat
  info_columns :: "string list"
  info_sample_data :: "'v py_dict list"

definition test_download_try ::
  "('s, 'c, 'v) deps \<Rightarrow> resource list \<Rightarrow> (exn + 'v download_info) \<times> resource list" where
  "test_download_try d held0 =
     (case NJMedicalScraper_init (mkdir d) None of
        Inl e \<Rightarrow> (Inl e, held0)
      | Inr scraper \<Rightarrow>
     (case download_excel_file scraper (playwright d) held0 of
        (Inl e, held) \<Rightarrow> (Inl e, held)
      | (Inr file_path, held) \<Rightarrow>
     (case read_excel d file_path of
        Inl e \<Rightarrow> (Inl e, held)
      | Inr df \<Rightarrow>
     (case unlink d file_path of
        Some e \<Rightarrow> (Inl e, held)
      | None \<Rightarrow>
          (Inr \<lparr>info_status = ''success'', info_rows = length (rows df),
                info_columns = columns df,
                info_sample_data = to_dict_records (df\<lparr>rows := take 3 (rows df)\<rparr>)\<rparr>,
           held)))))"

definition test_download ::
  "('s, 'c, 'v) deps \<Rightarrow> resource list \<Rightarrow> (HTTPException + 'v download_info) \<times> resource list" where
  "test_download d held0 =
     (case test_download_try d held0 of
        (Inl e, held) \<Rightarrow> (Inl \<lparr>exc_status_code = 500, exc_detail = Text (str_exn e)\<rparr>, held)
      | (Inr info, held) \<Rightarrow> (Inr info, held))"

record supabase_info =
  sb_status :: string
  sb_message :: string
  sb_table :: string

definition test_supabase_try :: "('s, 'c, 'v) deps \<Rightarrow> 's \<Rightarrow> (exn + supabase_info) \<times> 's" where
  "test_supabase_try d s =
     (case SupabaseHandler_init (store_lib d) (environ d) s of
        (Inl e, s') \<Rightarrow> (Inl e, s')
      | (Inr db_handler, s') \<Rightarrow>
          (Inr \<lparr>sb_status = ''success'', sb_message = ''Supabase connection successful'',
                sb_table = table_name db_handler\<rparr>, s'))"

definition test_supabase :: "('s, 'c, 'v) deps \<Rightarrow> 's \<Rightarrow> (HTTPException + supabase_info) \<times> 's" where
  "test_supabase d s =
     (case test_supabase_try d s of
        (Inl e, s') \<Rightarrow> (Inl \<lparr>exc_status_code = 500, exc_detail = Text (str_exn e)\<rparr>, s')
      | (Inr info, s') \<Rightarrow> (Inr info, s'))"

text \<open>
  Importing \<^verbatim>\<open>app.main\<close> (the start of the application): logging is configured,
  the application object is created and the five routes are registered. None of these
  statements reads the environment or constructs a store handler; handlers are
  constructed inside the endpoints, once per request.
\<close>

datatype http_method = GET | POST

definition import_main :: "(string \<rightharpoonup> string) \<Rightarrow> exn + (http_method \<times> string) list" where
  "import_main env =
     Inr [(GET, ''/''), (GET, ''/health''), (POST, ''/scrape-and-store''),
          (GET, ''/test-download''), (GET, ''/test-supabase'')]"

section \<open>Notions the properties are stated with\<close>

text \<open>
  A table as \<^verbatim>\<open>pd.read_excel\<close> delivers it: the column labels are pairwise distinct
  (the reader renames a repeated header) and every row has one cell per column.
\<close>

definition well_formed :: "'v dataframe \<Rightarrow> bool" where
  "well_formed df \<longleftrightarrow>
     distinct (columns df) \<and> list_all (\<lambda>ir. length (snd ir) = length (columns df)) (rows df)"

text \<open>The cell of a row under a label (null when the table has no such column).\<close>

definition cell_at :: "string list \<Rightarrow> 'v cell list \<Rightarrow> string \<Rightarrow> 'v cell" where
  "cell_at cols r k = (case map_of (zip cols r) k of Some c \<Rightarrow> c | None \<Rightarrow> None)"

definition kept_cells :: "string list \<Rightarrow> 'v cell list \<Rightarrow> 'v cell list" where
  "kept_cells cols r = map (cell_at cols r) COLUMNS_TO_KEEP"

definition fully_empty :: "'v cell list \<Rightarrow> bool" where
  "fully_empty r \<longleftrightarrow> list_all (\<lambda>c. \<not> notna c) r"

definition has_required_headers :: "'v dataframe \<Rightarrow> bool" where
  "has_required_headers df \<longleftrightarrow> list_all (\<lambda>k. k \<in> set (columns df)) COLUMNS_TO_KEEP"

text \<open>
  The rows the cleaning is to deliver: of the input rows, in their order, those whose
  code cell is not null and that are not fully empty, cut down to the four columns.
\<close>

definition expected_rows :: "'v dataframe \<Rightarrow> 'v cell list list" where
  "expected_rows df =
     map (kept_cells (columns df))
       (filter (\<lambda>r. notna (cell_at (columns df) r ''CPT* HCPS'') \<and> \<not> fully_empty r)
          (map snd (rows df)))"

text \<open>
  What the per-record insert calls of one run do, in order: the store's state is
  threaded from one call to the next.
\<close>

fun outcomes ::
  "('s, 'c, 'v) supabase \<Rightarrow> 'c SupabaseHandler \<Rightarrow> 'v py_dict list \<Rightarrow> 's
     \<Rightarrow> (exn + 'v py_dict list) list" where
  "outcomes lib self [] s = []"
| "outcomes lib self (record # rest) s =
     (case insert_execute lib (client self) (table_name self) (One record) s of
        (r, s') \<Rightarrow> r # outcomes lib self rest s')"

text \<open>
  The failing calls of a run as error entries: positions are counted from \<open>idx\<close>, in
  the order of the run.
\<close>

definition failed_entries :: "nat \<Rightarrow> (exn + 'a) list \<Rightarrow> error_entry list" where
  "failed_entries idx outs =
     map (\<lambda>ir. \<lparr>record_index = fst ir, error = str_exn (projl (snd ir))\<rparr>)
       (filter (\<lambda>ir. isl (snd ir)) (enumerate idx outs))"

text \<open>Whether the detail of an \<^verbatim>\<open>HTTPException\<close> is an object with the field \<open>k\<close>.\<close>

fun has_field :: "string \<Rightarrow> detail \<Rightarrow> bool" where
  "has_field k (Text t) = False"
| "has_field k (Fields kvs) = (k \<in> fst ` set kvs)"

text \<open>
  The steps of \<^verbatim>\<open>scrape_and_store\<close> before the insert all return: the scraper is
  constructed, the download gives \<open>file_path\<close> and leaves \<open>held'\<close>, reading and
  cleaning give \<open>df_cleaned\<close>, and the handler \<open>db_handler\<close> is constructed, which
  takes the store from \<open>s\<close> to \<open>s1\<close>.
\<close>

definition reaches_insert ::
  "('s, 'c, 'v) deps \<Rightarrow> resource list \<times> 's \<Rightarrow> string \<Rightarrow> resource list \<Rightarrow> 'v dataframe
     \<Rightarrow> 'c SupabaseHandler \<Rightarrow> 's \<Rightarrow> bool" where
  "reaches_insert d w file_path held' df_cleaned db_handler s1 \<longleftrightarrow>
     (case NJMedicalScraper_init (mkdir d) None of
        Inl e \<Rightarrow> False
      | Inr scraper \<Rightarrow>
          download_excel_file scraper (playwright d) (fst w) = (Inr file_path, held') \<and>
          process_file (read_excel d) file_path = Inr df_cleaned \<and>
          SupabaseHandler_init (store_lib d) (environ d) (snd w) = (Inr db_handler, s1))"

text \<open>The number of per-record insert calls of a run that raise.\<close>

definition failed_calls ::
  "('s, 'c, 'v) supabase \<Rightarrow> 'c SupabaseHandler \<Rightarrow> 'v py_dict list \<Rightarrow> 's \<Rightarrow> nat" where
  "failed_calls lib self records s = length (filter isl (outcomes lib self records s))"

text \<open>One of the two store credentials is absent from the environment or empty.\<close>

definition credentials_missing :: "(string \<rightharpoonup> string) \<Rightarrow> bool" where
  "credentials_missing env \<longleftrightarrow>
     env ''SUPABASE_URL'' = None \<or> env ''SUPABASE_URL'' = Some [] \<or>
     env ''SUPABASE_KEY'' = None \<or> env ''SUPABASE_KEY'' = Some []"

section \<open>Sample inputs\<close>

text \<open>
  A sheet with columns besides the required ones, a row without a code, a fully empty
  row, and index labels that do not start at 0.
\<close>

definition sample_sheet :: "string dataframe" where
  "sample_sheet =
     \<lparr>columns = [''Mod'', ''CPT* HCPS'', ''Description'', ''Physicians' Fees      North'',
                 ''ASC Fees North'', ''ASC Fees South''],
      rows = [(4, [None, Some ''10021'', Some ''Fna w/o image'', Some ''157.34'', None, None]),
              (5, [Some ''26'', None, Some ''Header line'', None, None, Some ''1'']),
              (6, [None, None, None, None, None, None]),
              (7, [Some ''TC'', Some ''10040'', None, None, Some ''98.10'', None])]\<rparr>"

text \<open>The fixture of the specification: one fee row and one fully blank row.\<close>

definition fixture :: "string dataframe" where
  "fixture =
     \<lparr>columns = [''CPT* HCPS'', ''Description'', ''Physicians' Fees      North'',
                 ''ASC Fees North''],
      rows = [(0, [Some ''99213'', Some ''Office visit'', Some ''150.00'', Some ''120.00'']),
              (1, [None, None, None, None])]\<rparr>"

definition headers_only :: "string dataframe" where
  "headers_only =
     \<lparr>columns = [''CPT* HCPS'', ''Description'', ''Physicians' Fees      North'',
                 ''ASC Fees North''],
      rows = []\<rparr>"

text \<open>
  A store with a unique code column: its state is the list of codes it holds. A record
  without a code, or with a code already held, is rejected; a bulk insert is all or
  nothing.
\<close>

definition code_of :: "string py_dict \<Rightarrow> string option" where
  "code_of r = (case map_of r ''cpt_hcps'' of Some (Some c) \<Rightarrow> Some c | _ \<Rightarrow> None)"

fun store_one :: "string py_dict \<Rightarrow> string list \<Rightarrow> (exn + string py_dict list) \<times> string list" where
  "store_one r held_codes =
     (case code_of r of
        None \<Rightarrow> (Inl (OtherError ''null value in column cpt_hcps''), held_codes)
      | Some c \<Rightarrow>
          if c \<in> set held_codes then (Inl (OtherError ''duplicate key''), held_codes)
          else (Inr [r], c # held_codes))"

fun store_many :: "string py_dict list \<Rightarrow> string list \<Rightarrow> (exn + string py_dict list) \<times> string list" where
  "store_many [] held_codes = (Inr [], held_codes)"
| "store_many (r # rs) held_codes =
     (case store_one r held_codes of
        (Inl e, s) \<Rightarrow> (Inl e, held_codes)
      | (Inr stored, s) \<Rightarrow>
          (case store_many rs s of
             (Inl e, s') \<Rightarrow> (Inl e, held_codes)
           | (Inr stored', s') \<Rightarrow> (Inr (stored @ stored'), s')))"

definition unique_store :: "(string list, unit, string) supabase" where
  "unique_store =
     \<lparr>create_client = (\<lambda>url key s. (Inr (), s)),
      insert_execute = (\<lambda>c t p s. case p of One r \<Rightarrow> store_one r s | Many rs \<Rightarrow> store_many rs s)\<rparr>"

definition sample_handler :: "unit SupabaseHandler" where
  "sample_handler =
     \<lparr>supabase_url = ''https://example.supabase.co'', supabase_key = ''secret'',
      table_name = ''test_cleaning'', client = ()\<rparr>"

definition code_record :: "string \<Rightarrow> string py_dict" where
  "code_record c = [(''cpt_hcps'', Some c), (''description'', None),
                    (''physicians_fees_north'', None), (''asc_fees_north'', None)]"

text \<open>Twelve records that all carry a code the store already holds, after one that does not.\<close>

definition thirteen_records :: "string py_dict list" where
  "thirteen_records =
     [code_record ''10021'', code_record ''10040'', code_record ''10040'', code_record ''10040'',
      code_record ''10040'', code_record ''10040'', code_record ''10040'', code_record ''10040'',
      code_record ''10040'', code_record ''10040'', code_record ''10040'', code_record ''10040'',
      code_record ''10040'']"

text \<open>A run of the browser in which every call returns.\<close>

definition smooth_run :: playwright_api where
  "smooth_run =
     \<lparr>start = None, launch = None, new_context = None, new_page = None, goto = None,
      wait_for = None, click_expect_download = Inr ''ex1_130104.xls'', save_as = None,
      context_close = None, browser_close = None, playwright_stop = None\<rparr>"

text \<open>A run in which the link never becomes visible.\<close>

definition link_timeout :: playwright_api where
  "link_timeout = smooth_run\<lparr>wait_for := Some (OtherError ''Timeout 15000ms exceeded'')\<rparr>"

definition sample_env :: "string \<rightharpoonup> string" where
  "sample_env = [''SUPABASE_URL'' \<mapsto> ''https://example.supabase.co'', ''SUPABASE_KEY'' \<mapsto> ''secret'']"

definition sample_deps :: "(string list, unit, string) deps" where
  "sample_deps =
     \<lparr>playwright = smooth_run, mkdir = None, read_excel = (\<lambda>p. Inr sample_sheet),
      environ = sample_env, store_lib = unique_store, unlink = (\<lambda>p. None),
      utcnow_isoformat = ''2024-01-01T00:00:00''\<rparr>"

text \<open>The sample sheet after cleaning, and the path the sample download is saved under.\<close>

definition cleaned_sample :: "string dataframe" where
  "cleaned_sample =
     \<lparr>columns = [''cpt_hcps'', ''description'', ''physicians_fees_north'', ''asc_fees_north''],
      rows = [(0, [Some ''10021'', Some ''Fna w/o image'', Some ''157.34'', None]),
              (1, [Some ''10040'', None, None, Some ''98.10''])]\<rparr>"

definition sample_path :: string where
  "sample_path = ''downloads/ex1_130104.xls''"

text \<open>A store that accepts every insert and reports no rows back.\<close>

definition silent_store :: "(nat, unit, string) supabase" where
  "silent_store =
     \<lparr>create_client = (\<lambda>url key s. (Inr (), s)),
      insert_execute = (\<lambda>c t p s. (Inr [], Suc s))\<rparr>"

text \<open>The sample dependencies in a process started without the store credentials.\<close>

definition no_credentials :: "(string list, unit, string) deps" where
  "no_credentials = sample_deps\<lparr>environ := Map.empty\<rparr>"

text \<open>No credentials and a link that never shows: every pipeline fails.\<close>

definition failing_deps :: "(string list, unit, string) deps" where
  "failing_deps = no_credentials\<lparr>playwright := link_timeout\<rparr>"

text \<open>
  Runs of the browser that go wrong outside the download steps: the browser does not
  launch; the page cannot be opened; the link never shows and then closing the context
  raises as well.
\<close>

definition sample_scraper :: NJMedicalScraper where
  "sample_scraper =
     \<lparr>download_dir = ''downloads'', url = ''https://www.nj.gov/dobi/pipinfo/aicrapg.htm''\<rparr>"

definition launch_fails :: playwright_api where
  "launch_fails = smooth_run\<lparr>launch := Some (OtherError ''Failed to launch chromium'')\<rparr>"

definition page_fails :: playwright_api where
  "page_fails = smooth_run\<lparr>new_page := Some (OtherError ''Target closed'')\<rparr>"

definition close_fails :: playwright_api where
  "close_fails = link_timeout\<lparr>context_close := Some (OtherError ''Target closed'')\<rparr>"

section \<open>Cleaning: selection, renaming and the two row filters\<close>

lemma filter_label_absent:
  "k \<notin> set cols \<Longrightarrow> filter (\<lambda>cx. fst cx = k) (zip cols xs) = []"
  by (auto simp: filter_empty_conv dest: set_zip_leftD)

lemma under_label_cell:
  "distinct cols \<Longrightarrow> k \<in> set cols \<Longrightarrow> length r = length cols \<Longrightarrow>
     under_label cols k r = [cell_at cols r k]"
proof (induction cols arbitrary: r)
  case Nil
  then show ?case by simp
next
  case (Cons c cols)
  then obtain x xs where r: "r = x # xs" by (cases r) auto
  show ?case
  proof (cases "c = k")
    case True
    with Cons.prems have "k \<notin> set cols" by auto
    then show ?thesis using True r
      by (simp add: under_label_def cell_at_def filter_label_absent)
  next
    case False
    with Cons.prems r have "under_label cols k xs = [cell_at cols xs k]"
      by (intro Cons.IH) auto
    then show ?thesis using False r
      by (simp add: under_label_def cell_at_def)
  qed
qed

lemma under_label_header:
  "distinct cols \<Longrightarrow> k \<in> set cols \<Longrightarrow> under_label cols k cols = [k]"
proof (induction cols)
  case Nil
  then show ?case by simp
next
  case (Cons c cols)
  show ?case
  proof (cases "c = k")
    case True
    with Cons.prems have "k \<notin> set cols" by auto
    then have "filter (\<lambda>cx. fst cx = k) (zip cols cols) = []"
      by (rule filter_label_absent)
    then show ?thesis using True by (simp add: under_label_def)
  next
    case False
    with Cons show ?thesis by (simp add: under_label_def)
  qed
qed

lemma take_labels_cells:
  "distinct cols \<Longrightarrow> set keys \<subseteq> set cols \<Longrightarrow> length r = length cols \<Longrightarrow>
     take_labels cols keys r = map (cell_at cols r) keys"
  by (induction keys) (simp_all add: take_labels_def under_label_cell)

lemma take_labels_header:
  "distinct cols \<Longrightarrow> set keys \<subseteq> set cols \<Longrightarrow> take_labels cols keys cols = keys"
  by (induction keys) (simp_all add: take_labels_def under_label_header)

lemma not_found_none: "set keys \<subseteq> set cols \<Longrightarrow> not_found cols keys = []"
  by (auto simp: not_found_def filter_empty_conv)

lemma notna_cell_not_empty:
  "notna (cell_at cols r k) \<Longrightarrow> \<not> fully_empty r"
proof -
  assume a: "notna (cell_at cols r k)"
  then obtain c where c: "map_of (zip cols r) k = Some c" "notna c"
    by (auto simp: cell_at_def split: option.splits)
  then have "(k, c) \<in> set (zip cols r)" by (meson map_of_SomeD)
  then have "c \<in> set r" by (rule set_zip_rightD)
  with c show ?thesis by (auto simp: fully_empty_def list_all_iff)
qed


lemma getitem_keep:
  assumes "has_required_headers df" "well_formed df"
  shows "getitem df COLUMNS_TO_KEEP =
           Inr \<lparr>columns = COLUMNS_TO_KEEP,
                rows = map (\<lambda>ir. (fst ir, kept_cells (columns df) (snd ir))) (rows df)\<rparr>"
proof -
  from assms have sub: "set COLUMNS_TO_KEEP \<subseteq> set (columns df)"
    by (auto simp: has_required_headers_def list_all_iff)
  from assms have d: "distinct (columns df)" by (simp add: well_formed_def)
  have len: "length (snd ir) = length (columns df)" if "ir \<in> set (rows df)" for ir
    using assms(2) that by (auto simp: well_formed_def list_all_iff)
  have "map (\<lambda>(i, r). (i, take_labels (columns df) COLUMNS_TO_KEEP r)) (rows df) =
        map (\<lambda>ir. (fst ir, kept_cells (columns df) (snd ir))) (rows df)"
    by (rule map_cong) (auto simp: kept_cells_def take_labels_cells [OF d sub] dest: len)
  then show ?thesis
    by (simp add: getitem_def not_found_none [OF sub] take_labels_header [OF d sub])
qed

lemma renamed_header:
  "map (\<lambda>c. case map_of COLUMN_RENAME c of Some c' \<Rightarrow> c' | None \<Rightarrow> c) COLUMNS_TO_KEEP =
     [''cpt_hcps'', ''description'', ''physicians_fees_north'', ''asc_fees_north'']"
  by (simp add: COLUMN_RENAME_def COLUMNS_TO_KEEP_def)

lemma code_cell_of_kept:
  "take_labels [''cpt_hcps'', ''description'', ''physicians_fees_north'', ''asc_fees_north'']
     [''cpt_hcps''] (kept_cells cols r) = [cell_at cols r ''CPT* HCPS'']"
  by (simp add: take_labels_def under_label_def kept_cells_def COLUMNS_TO_KEEP_def)

lemma kept_not_all_null:
  "notna (cell_at cols r ''CPT* HCPS'') \<Longrightarrow> list_ex notna (kept_cells cols r)"
  by (simp add: kept_cells_def COLUMNS_TO_KEEP_def)

lemma filter_rows_twice:
  "map snd (filter (\<lambda>(i, r). Q r) (filter (\<lambda>(i, r). P r)
      (map (\<lambda>ir. (fst ir, f (snd ir))) rs))) =
   map f (filter (\<lambda>r. P (f r) \<and> Q (f r)) (map snd rs))"
  by (induction rs) auto

text \<open>
  Claim C1. For every input table with the four required headers, \<open>clean_data\<close>
  returns (it does not raise) a table with exactly the four renamed columns, in the
  order cpt\_hcps, description, physicians\_fees\_north, asc\_fees\_north. Its rows are the
  input rows without those whose code cell is null and without the fully empty ones,
  in the same relative order, each cut down to the four columns, and they are numbered
  0 to n-1 anew. The table is one that the spreadsheet reader delivers: pairwise distinct
  headers and one cell per column in every row.
\<close>

theorem clean_data_spec:
  assumes "has_required_headers df" "well_formed df"
  shows "clean_data df =
           Inr \<lparr>columns = [''cpt_hcps'', ''description'', ''physicians_fees_north'',
                           ''asc_fees_north''],
                rows = zip (map int [0..<length (expected_rows df)]) (expected_rows df)\<rparr>"
proof -
  let ?names = "[''cpt_hcps'', ''description'', ''physicians_fees_north'', ''asc_fees_north'']"
  let ?cols = "columns df"
  have same: "(list_all notna (take_labels ?names [''cpt_hcps''] (kept_cells ?cols r)) \<and>
               list_ex notna (kept_cells ?cols r)) =
              (notna (cell_at ?cols r ''CPT* HCPS'') \<and> \<not> fully_empty r)" for r
    using kept_not_all_null [of ?cols r] notna_cell_not_empty [of ?cols r "''CPT* HCPS''"]
    by (auto simp: code_cell_of_kept)
  have kept: "map snd (filter (\<lambda>(i, r). list_ex notna r)
                 (filter (\<lambda>(i, r). list_all notna (take_labels ?names [''cpt_hcps''] r))
                    (map (\<lambda>ir. (fst ir, kept_cells ?cols (snd ir))) (rows df)))) =
              expected_rows df"
    unfolding filter_rows_twice expected_rows_def same ..
  let ?R = "filter (\<lambda>(i, r). list_ex notna r)
              (filter (\<lambda>(i, r). list_all notna (take_labels ?names [''cpt_hcps''] r))
                 (map (\<lambda>ir. (fst ir, kept_cells ?cols (snd ir))) (rows df)))"
  have len: "length ?R = length (expected_rows df)"
    using arg_cong [OF kept, of length] by (simp only: length_map)
  have nf: "not_found ?names [''cpt_hcps''] = []"
    by (simp add: not_found_def)
  have "clean_data df = Inr \<lparr>columns = ?names, rows = zip (map int [0..<length ?R]) (map snd ?R)\<rparr>"
    unfolding clean_data_def getitem_keep [OF assms]
    by (simp add: rename_def renamed_header dropna_subset_def nf dropna_all_def
        reset_index_def del: filter_filter)
  then show ?thesis
    by (simp only: len kept)
qed

theorem clean_data_spec_witness:
  "has_required_headers sample_sheet \<and> well_formed sample_sheet \<and>
   clean_data sample_sheet =
     Inr \<lparr>columns = [''cpt_hcps'', ''description'', ''physicians_fees_north'',
                     ''asc_fees_north''],
          rows = [(0, [Some ''10021'', Some ''Fna w/o image'', Some ''157.34'', None]),
                  (1, [Some ''10040'', None, None, Some ''98.10''])]\<rparr>"
proof -
  have h: "has_required_headers sample_sheet"
    by (simp add: has_required_headers_def sample_sheet_def COLUMNS_TO_KEEP_def)
  have w: "well_formed sample_sheet"
    by (simp add: well_formed_def sample_sheet_def)
  have e: "expected_rows sample_sheet =
      [[Some ''10021'', Some ''Fna w/o image'', Some ''157.34'', None],
       [Some ''10040'', None, None, Some ''98.10'']]"
    by (simp add: expected_rows_def sample_sheet_def kept_cells_def cell_at_def
        fully_empty_def COLUMNS_TO_KEEP_def)
  have n: "[0..<2] = [0, Suc 0]" by (simp add: upt_rec)
  show ?thesis using h w clean_data_spec [OF h w] by (simp add: e n)
qed

text \<open>
  Claim C7. Cleaning the fixture table (the four required headers, the row
  99213 / Office visit / 150.00 / 120.00 and one fully blank row) yields exactly one
  record, with cpt\_hcps 99213, description Office visit, physicians\_fees\_north 150.00
  and asc\_fees\_north 120.00.
\<close>

theorem fixture_cleaned:
  "map_sum id to_dict_records (clean_data fixture) =
     Inr [[(''cpt_hcps'', Some ''99213''), (''description'', Some ''Office visit''),
           (''physicians_fees_north'', Some ''150.00''),
           (''asc_fees_north'', Some ''120.00'')]]"
  by (simp add: clean_data_def fixture_def getitem_def not_found_def COLUMNS_TO_KEEP_def
      take_labels_def under_label_def rename_def COLUMN_RENAME_def dropna_subset_def
      dropna_all_def reset_index_def to_dict_records_def dict_of_def)

lemma label_in_under_label: "k \<in> set cols \<Longrightarrow> k \<in> set (under_label cols k cols)"
  by (induction cols) (auto simp: under_label_def)

lemma set_take_labels_header:
  "set keys \<subseteq> set cols \<Longrightarrow> set keys \<subseteq> set (take_labels cols keys cols)"
  by (auto simp: take_labels_def dest: label_in_under_label)

lemma renamed_code_label:
  "(case map_of COLUMN_RENAME ''CPT* HCPS'' of Some c' \<Rightarrow> c' | None \<Rightarrow> ''CPT* HCPS'') = ''cpt_hcps''"
  by (simp add: COLUMN_RENAME_def)

text \<open>
  Claim C8. For an input table that has the four required headers and no data rows,
  \<open>clean_data\<close> does not raise and returns a table with no rows.
\<close>

theorem clean_data_no_rows:
  assumes "has_required_headers df" "rows df = []"
  shows "\<exists>out. clean_data df = Inr out \<and> rows out = []"
proof -
  from assms(1) have sub: "set COLUMNS_TO_KEEP \<subseteq> set (columns df)"
    by (auto simp: has_required_headers_def list_all_iff)
  let ?sel = "take_labels (columns df) COLUMNS_TO_KEEP (columns df)"
  let ?f = "\<lambda>c. case map_of COLUMN_RENAME c of Some c' \<Rightarrow> c' | None \<Rightarrow> c"
  have "''CPT* HCPS'' \<in> set COLUMNS_TO_KEEP" by (simp add: COLUMNS_TO_KEEP_def)
  with set_take_labels_header [OF sub] have "''CPT* HCPS'' \<in> set ?sel" by blast
  then have "?f ''CPT* HCPS'' \<in> ?f ` set ?sel" by (rule imageI)
  then have "''cpt_hcps'' \<in> set (map ?f ?sel)"
    by (simp only: renamed_code_label set_map)
  then have nf: "not_found (map ?f ?sel) [''cpt_hcps''] = []"
    by (simp add: not_found_def)
  have g: "getitem df COLUMNS_TO_KEEP = Inr \<lparr>columns = ?sel, rows = []\<rparr>"
    by (simp add: getitem_def not_found_none [OF sub] assms(2))
  have r: "rename COLUMN_RENAME \<lparr>columns = ?sel, rows = []\<rparr> =
             (\<lparr>columns = map ?f ?sel, rows = []\<rparr> :: 'a dataframe)"
    by (simp add: rename_def)
  have d: "dropna_subset [''cpt_hcps''] \<lparr>columns = map ?f ?sel, rows = []\<rparr> =
             Inr (\<lparr>columns = map ?f ?sel, rows = []\<rparr> :: 'a dataframe)"
    by (simp add: dropna_subset_def nf)
  show ?thesis
    unfolding clean_data_def g by (simp add: r d dropna_all_def reset_index_def)
qed

theorem clean_data_no_rows_witness:
  "has_required_headers headers_only \<and> rows headers_only = [] \<and>
   (\<exists>out. clean_data headers_only = Inr out \<and> rows out = [])"
proof -
  have h: "has_required_headers headers_only"
    by (simp add: has_required_headers_def headers_only_def COLUMNS_TO_KEEP_def)
  have r: "rows headers_only = []" by (simp add: headers_only_def)
  show ?thesis using h r clean_data_no_rows [OF h r] by simp
qed

section \<open>Storing: the per-record loop and the bulk call\<close>

lemma outcomes_length: "length (outcomes lib self records s) = length records"
  by (induction records arbitrary: s) (auto split: prod.splits)

lemma failed_entries_Nil: "failed_entries idx [] = []"
  by (simp add: failed_entries_def)

lemma failed_entries_Inl:
  "failed_entries idx (Inl e # outs) =
     \<lparr>record_index = idx, error = str_exn e\<rparr> # failed_entries (Suc idx) outs"
  by (simp add: failed_entries_def)

lemma failed_entries_Inr: "failed_entries idx (Inr v # outs) = failed_entries (Suc idx) outs"
  by (simp add: failed_entries_def)

lemma failed_entries_length: "length (failed_entries idx outs) = length (filter isl outs)"
proof (induction outs arbitrary: idx)
  case Nil
  then show ?case by (simp add: failed_entries_Nil)
next
  case (Cons r outs)
  then show ?case
    by (cases r) (simp_all add: failed_entries_Inl failed_entries_Inr)
qed

lemma count_not_failed:
  "length (filter (\<lambda>r. \<not> isl r) outs) = length outs - length (filter isl outs)"
  using sum_length_filter_compl [of isl outs] by simp

lemma one_by_one_loop_result:
  "fst (one_by_one_loop lib self idx records (sc, fc, errs) s) =
     (sc + length (filter (\<lambda>r. \<not> isl r) (outcomes lib self records s)),
      fc + length (filter isl (outcomes lib self records s)),
      errs @ failed_entries idx (outcomes lib self records s))"
proof (induction records arbitrary: idx sc fc errs s)
  case Nil
  then show ?case by (simp add: failed_entries_Nil)
next
  case (Cons x rest)
  obtain r s' where step:
    "insert_execute lib (client self) (table_name self) (One x) s = (r, s')"
    by (cases "insert_execute lib (client self) (table_name self) (One x) s")
  show ?case
  proof (cases r)
    case (Inl e)
    with step Cons.IH [of "Suc idx" sc "fc + 1" _ s'] show ?thesis
      by (simp add: failed_entries_Inl)
  next
    case (Inr v)
    with step Cons.IH [of "Suc idx" "sc + 1" fc errs s'] show ?thesis
      by (simp add: failed_entries_Inr)
  qed
qed


lemma one_by_one_summary_of_run:
  "\<exists>s'. insert_records_one_by_one lib self records s =
     (Inr \<lparr>status = ''completed'',
           records_inserted = length records - failed_calls lib self records s,
           table = table_name self,
           records_failed = failed_calls lib self records s,
           errors = take 10 (failed_entries 1 (outcomes lib self records s))\<rparr>, s')"
proof -
  obtain acc s' where run: "one_by_one_loop lib self 1 records (0, 0, []) s = (acc, s')"
    by (cases "one_by_one_loop lib self 1 records (0, 0, []) s")
  from one_by_one_loop_result [of lib self 1 records 0 0 "[]" s] run
  have "acc = (length records - failed_calls lib self records s,
               failed_calls lib self records s,
               failed_entries 1 (outcomes lib self records s))"
    by (simp add: failed_calls_def count_not_failed outcomes_length)
  with run show ?thesis
    by (simp add: insert_records_one_by_one_def)
qed

lemma failed_entry_meaning:
  assumes "e \<in> set (failed_entries idx outs)"
  shows "idx \<le> record_index e \<and> record_index e < idx + length outs \<and>
         (\<exists>x. outs ! (record_index e - idx) = Inl x \<and> error e = str_exn x)"
proof -
  from assms obtain i r where ir: "(i, r) \<in> set (enumerate idx outs)" "isl r"
    and e: "e = \<lparr>record_index = i, error = str_exn (projl r)\<rparr>"
    by (auto simp: failed_entries_def)
  from ir(1) have "idx \<le> i" "i < idx + length outs" "outs ! (i - idx) = r"
    by (auto simp: in_set_enumerate_eq)
  moreover from ir(2) obtain x where "r = Inl x" by (cases r) auto
  ultimately show ?thesis using e by simp
qed

lemma failed_entries_ascending:
  "sorted_wrt (<) (map record_index (failed_entries idx outs))"
proof -
  have "map record_index (failed_entries idx outs) =
        map fst (filter (\<lambda>ir. isl (snd ir)) (enumerate idx outs))"
    by (simp add: failed_entries_def comp_def)
  moreover have "sorted_wrt (<) (map fst (enumerate idx outs))"
    by (simp add: map_fst_enumerate)
  then have "sorted_wrt (<) (map fst (filter (\<lambda>ir. isl (snd ir)) (enumerate idx outs)))"
    unfolding sorted_wrt_map by (rule sorted_wrt_filter)
  ultimately show ?thesis by simp
qed

text \<open>
  Claim C9. For every list of records (and every behaviour of the store),
  \<open>insert_records_one_by_one\<close> returns a summary and never an exception, also when
  every insert fails; the status of the summary is "completed"; its error entries are
  the first 10 failing inserts of the run, in input order, each with the 1-based
  position of its record and the text of what the insert raised.
\<close>

theorem one_by_one_never_raises:
  "\<exists>summary s'.
     insert_records_one_by_one lib self records s = (Inr summary, s') \<and>
     status summary = ''completed'' \<and>
     errors summary = take 10 (failed_entries 1 (outcomes lib self records s)) \<and>
     sorted_wrt (<) (map record_index (errors summary)) \<and>
     (\<forall>e \<in> set (errors summary).
        1 \<le> record_index e \<and> record_index e \<le> length records \<and>
        (\<exists>x. outcomes lib self records s ! (record_index e - 1) = Inl x \<and>
             error e = str_exn x))"
proof -
  let ?outs = "outcomes lib self records s"
  from one_by_one_summary_of_run [of lib self records s] obtain s' where
    run: "insert_records_one_by_one lib self records s =
     (Inr \<lparr>status = ''completed'',
           records_inserted = length records - failed_calls lib self records s,
           table = table_name self,
           records_failed = failed_calls lib self records s,
           errors = take 10 (failed_entries 1 ?outs)\<rparr>, s')" ..
  have asc: "sorted_wrt (<) (map record_index (take 10 (failed_entries 1 ?outs)))"
    using failed_entries_ascending [of 1 ?outs]
    by (simp add: take_map [symmetric] sorted_wrt_take)
  have each: "1 \<le> record_index e \<and> record_index e \<le> length records \<and>
        (\<exists>x. ?outs ! (record_index e - 1) = Inl x \<and> error e = str_exn x)"
    if "e \<in> set (take 10 (failed_entries 1 ?outs))" for e
  proof -
    from that have "e \<in> set (failed_entries 1 ?outs)" by (rule in_set_takeD)
    from failed_entry_meaning [OF this] show ?thesis
      by (auto simp: outcomes_length)
  qed
  from run asc each show ?thesis by auto
qed

lemma thirteen_run:
  "insert_records_one_by_one unique_store sample_handler thirteen_records [''10040''] =
     (Inr \<lparr>status = ''completed'', records_inserted = 1, table = ''test_cleaning'',
           records_failed = 12,
           errors = map (\<lambda>i. \<lparr>record_index = i, error = ''duplicate key''\<rparr>)
                      [2, 3, 4, 5, 6, 7, 8, 9, 10, 11]\<rparr>,
      [''10021'', ''10040''])"
  by (simp add: insert_records_one_by_one_def unique_store_def thirteen_records_def
      code_record_def code_of_def sample_handler_def)

theorem one_by_one_never_raises_witness:
  "fst (insert_records_one_by_one unique_store sample_handler thirteen_records [''10040'']) =
     Inr \<lparr>status = ''completed'', records_inserted = 1, table = ''test_cleaning'',
          records_failed = 12,
          errors = map (\<lambda>i. \<lparr>record_index = i, error = ''duplicate key''\<rparr>)
                     [2, 3, 4, 5, 6, 7, 8, 9, 10, 11]\<rparr> \<and>
   take 10 (failed_entries 1
      (outcomes unique_store sample_handler thirteen_records [''10040''])) =
     map (\<lambda>i. \<lparr>record_index = i, error = ''duplicate key''\<rparr>) [2, 3, 4, 5, 6, 7, 8, 9, 10, 11]"
  using one_by_one_never_raises [of unique_store sample_handler thirteen_records "[''10040'']"]
  by (auto simp: thirteen_run)

lemma init_table_name:
  "SupabaseHandler_init lib env s0 = (Inr self, s1) \<Longrightarrow> table_name self = ''test_cleaning''"
  by (auto simp: SupabaseHandler_init_def split: option.splits if_splits sum.splits prod.splits)

text \<open>
  Claim C10. For every list of records and every state of the store, when the bulk insert
  call does not raise, \<open>insert_records\<close> of a handler that
  \<^verbatim>\<open>SupabaseHandler.__init__\<close> built returns status "success", the fixed table
  name "test\_cleaning" and records\_inserted equal to the length of the input list,
  whatever rows the store's response reports.
\<close>

theorem insert_records_success:
  assumes "SupabaseHandler_init lib env s0 = (Inr self, s1)"
      and "insert_execute lib (client self) (table_name self) (Many records) s = (Inr response, s')"
  shows "insert_records lib self records s =
           (Inr \<lparr>status = ''success'', records_inserted = length records,
                 table = ''test_cleaning''\<rparr>, s')"
  using assms(2) init_table_name [OF assms(1)] by (simp add: insert_records_def)

theorem insert_records_success_witness:
  "SupabaseHandler_init silent_store sample_env 0 = (Inr sample_handler, 0) \<and>
   insert_execute silent_store (client sample_handler) (table_name sample_handler)
     (Many thirteen_records) 0 = (Inr [], 1) \<and>
   insert_records silent_store sample_handler thirteen_records 0 =
     (Inr \<lparr>status = ''success'', records_inserted = 13, table = ''test_cleaning''\<rparr>, 1)"
proof -
  have i: "SupabaseHandler_init silent_store sample_env 0 = (Inr sample_handler, 0)"
    by (simp add: SupabaseHandler_init_def silent_store_def sample_env_def sample_handler_def)
  have e: "insert_execute silent_store (client sample_handler) (table_name sample_handler)
     (Many thirteen_records) 0 = (Inr [], 1)"
    by (simp add: silent_store_def)
  have n: "length thirteen_records = 13" by (simp add: thirteen_records_def)
  show ?thesis using i e insert_records_success [OF i e] by (simp add: n)
qed

section \<open>The endpoint around the store\<close>

lemma clean_sample_sheet: "clean_data sample_sheet = Inr cleaned_sample"
  by (simp add: clean_data_def sample_sheet_def cleaned_sample_def getitem_def not_found_def
      COLUMNS_TO_KEEP_def take_labels_def under_label_def rename_def COLUMN_RENAME_def
      dropna_subset_def dropna_all_def reset_index_def)

lemma smooth_download:
  "download_excel_file \<lparr>download_dir = ''downloads'', url = u\<rparr> smooth_run held =
     (Inr sample_path, held)"
  by (simp add: download_excel_file_def setup_browser_def release_all_def download_steps_def
      smooth_run_def sample_path_def)

lemma sample_reaches_insert:
  "reaches_insert sample_deps ([], s) sample_path [] cleaned_sample sample_handler s"
  by (simp add: reaches_insert_def sample_deps_def NJMedicalScraper_init_def smooth_download
      process_file_def clean_sample_sheet SupabaseHandler_init_def sample_env_def
      unique_store_def sample_handler_def)

lemma cleaned_sample_records:
  "to_dict_records cleaned_sample =
     [[(''cpt_hcps'', Some ''10021''), (''description'', Some ''Fna w/o image''),
       (''physicians_fees_north'', Some ''157.34''), (''asc_fees_north'', None)],
      [(''cpt_hcps'', Some ''10040''), (''description'', None),
       (''physicians_fees_north'', None), (''asc_fees_north'', Some ''98.10'')]]"
  by (simp add: to_dict_records_def cleaned_sample_def dict_of_def)

lemma sample_one_by_one:
  "insert_records_one_by_one (store_lib sample_deps) sample_handler
     (to_dict_records cleaned_sample) [''10040''] =
     (Inr \<lparr>status = ''completed'', records_inserted = 1, table = ''test_cleaning'',
           records_failed = 1,
           errors = [\<lparr>record_index = 2, error = ''duplicate key''\<rparr>]\<rparr>,
      [''10021'', ''10040''])"
  by (simp add: cleaned_sample_records insert_records_one_by_one_def sample_deps_def
      unique_store_def code_of_def sample_handler_def)

lemma sample_bulk_rejected:
  "insert_execute (store_lib sample_deps) (client sample_handler) (table_name sample_handler)
     (Many (to_dict_records cleaned_sample)) [''10040''] =
     (Inl (OtherError ''duplicate key''), [''10040''])"
  by (simp add: cleaned_sample_records sample_deps_def unique_store_def code_of_def)

lemma try_from_insert:
  assumes "reaches_insert d w file_path held' df_cleaned db_handler s1"
  shows "scrape_and_store_try d m w =
     (case (if m = ''one_by_one''
            then map_prod (map_sum id OneByOne) id
                   (insert_records_one_by_one (store_lib d) db_handler
                      (to_dict_records df_cleaned) s1)
            else map_prod (map_sum id Bulk) id
                   (insert_records (store_lib d) db_handler
                      (to_dict_records df_cleaned) s1)) of
        (Inl e, s2) \<Rightarrow> (Inl e, (held', s2))
      | (Inr result, s2) \<Rightarrow>
     (case unlink d file_path of
        Some e \<Rightarrow> (Inl e, (held', s2))
      | None \<Rightarrow>
          (Inr \<lparr>status_code = 200,
                content = \<lparr>content_status = ''success'',
                            content_message = ''Data scraped and stored successfully'',
                            content_details = result,
                            content_timestamp = utcnow_isoformat d\<rparr>\<rparr>,
           (held', s2))))"
  using assms
  by (simp add: reaches_insert_def scrape_and_store_try_def split: sum.splits)

text \<open>
  Claim C2. For every list of N records of which exactly K inserts raise,
  \<open>insert_records_one_by_one\<close> returns a summary with records\_inserted = N - K,
  records\_failed = K and min(K, 10) error entries. When the steps of
  \<^verbatim>\<open>/scrape-and-store\<close> before the insert return and the downloaded file is removed,
  the endpoint answers this summary, failures included, with status 200.
\<close>

theorem one_by_one_partial_success:
  "(\<exists>summary s'.
      insert_records_one_by_one lib self records s = (Inr summary, s') \<and>
      records_inserted summary = length records - failed_calls lib self records s \<and>
      records_failed summary = failed_calls lib self records s \<and>
      records_inserted summary + records_failed summary = length records \<and>
      length (errors summary) = min (failed_calls lib self records s) 10) \<and>
   (reaches_insert d w file_path held' df_cleaned db_handler s1 \<and> unlink d file_path = None \<longrightarrow>
      (\<exists>summary s2.
         insert_records_one_by_one (store_lib d) db_handler (to_dict_records df_cleaned) s1 =
           (Inr summary, s2) \<and>
         scrape_and_store d ''one_by_one'' w =
           (Inr \<lparr>status_code = 200,
                 content = \<lparr>content_status = ''success'',
                             content_message = ''Data scraped and stored successfully'',
                             content_details = OneByOne summary,
                             content_timestamp = utcnow_isoformat d\<rparr>\<rparr>,
            (held', s2))))"
proof (intro conjI impI)
  have le: "failed_calls lib self records s \<le> length records"
    using length_filter_le [of isl "outcomes lib self records s"]
    by (simp add: failed_calls_def outcomes_length)
  from one_by_one_summary_of_run [of lib self records s] le
  show "\<exists>summary s'.
      insert_records_one_by_one lib self records s = (Inr summary, s') \<and>
      records_inserted summary = length records - failed_calls lib self records s \<and>
      records_failed summary = failed_calls lib self records s \<and>
      records_inserted summary + records_failed summary = length records \<and>
      length (errors summary) = min (failed_calls lib self records s) 10"
    by (auto simp: failed_entries_length failed_calls_def)
next
  assume a: "reaches_insert d w file_path held' df_cleaned db_handler s1 \<and> unlink d file_path = None"
  obtain summary s2 where run:
    "insert_records_one_by_one (store_lib d) db_handler (to_dict_records df_cleaned) s1 =
       (Inr summary, s2)"
    using one_by_one_summary_of_run [of "store_lib d" db_handler "to_dict_records df_cleaned" s1]
    by blast
  from a have "scrape_and_store_try d ''one_by_one'' w =
     (Inr \<lparr>status_code = 200,
           content = \<lparr>content_status = ''success'',
                       content_message = ''Data scraped and stored successfully'',
                       content_details = OneByOne summary,
                       content_timestamp = utcnow_isoformat d\<rparr>\<rparr>,
      (held', s2))"
    by (simp add: try_from_insert [of d w file_path held' df_cleaned db_handler s1] run)
  then have "scrape_and_store d ''one_by_one'' w =
     (Inr \<lparr>status_code = 200,
           content = \<lparr>content_status = ''success'',
                       content_message = ''Data scraped and stored successfully'',
                       content_details = OneByOne summary,
                       content_timestamp = utcnow_isoformat d\<rparr>\<rparr>,
      (held', s2))"
    by (simp add: scrape_and_store_def)
  with run show "\<exists>summary s2.
         insert_records_one_by_one (store_lib d) db_handler (to_dict_records df_cleaned) s1 =
           (Inr summary, s2) \<and>
         scrape_and_store d ''one_by_one'' w =
           (Inr \<lparr>status_code = 200,
                 content = \<lparr>content_status = ''success'',
                             content_message = ''Data scraped and stored successfully'',
                             content_details = OneByOne summary,
                             content_timestamp = utcnow_isoformat d\<rparr>\<rparr>,
            (held', s2))"
    by blast
qed

theorem one_by_one_partial_success_witness:
  "reaches_insert sample_deps ([], [''10040'']) sample_path [] cleaned_sample sample_handler
     [''10040''] \<and>
   unlink sample_deps sample_path = None \<and>
   scrape_and_store sample_deps ''one_by_one'' ([], [''10040'']) =
     (Inr \<lparr>status_code = 200,
           content = \<lparr>content_status = ''success'',
                       content_message = ''Data scraped and stored successfully'',
                       content_details = OneByOne
                         \<lparr>status = ''completed'', records_inserted = 1,
                          table = ''test_cleaning'', records_failed = 1,
                          errors = [\<lparr>record_index = 2, error = ''duplicate key''\<rparr>]\<rparr>,
                       content_timestamp = ''2024-01-01T00:00:00''\<rparr>\<rparr>,
      ([], [''10021'', ''10040'']))"
proof -
  have r: "reaches_insert sample_deps ([], [''10040'']) sample_path [] cleaned_sample
             sample_handler [''10040'']"
    by (rule sample_reaches_insert)
  have u: "unlink sample_deps sample_path = None"
    by (simp add: sample_deps_def)
  have t: "utcnow_isoformat sample_deps = ''2024-01-01T00:00:00''"
    by (simp add: sample_deps_def)
  from one_by_one_partial_success
    [where d = sample_deps and w = "([], [''10040''])" and file_path = sample_path
       and held' = "[]" and df_cleaned = cleaned_sample and db_handler = sample_handler
       and ?s1.0 = "[''10040'']" and lib = unique_store and self = sample_handler
       and records = thirteen_records and s = "[''10040'']"] r u
  show ?thesis
    by (auto simp: sample_one_by_one t)
qed

text \<open>
  Claim C3. If the bulk insert call raises, \<open>insert_records\<close> raises the same exception
  and returns no summary (no inserted or failed counts); \<^verbatim>\<open>/scrape-and-store\<close> in
  bulk mode then raises an HTTP error with status 500 that carries the text of the
  exception.
\<close>

theorem bulk_failure_aborts:
  "(insert_execute lib (client self) (table_name self) (Many records) s = (Inl e, s') \<longrightarrow>
      insert_records lib self records s = (Inl e, s')) \<and>
   (reaches_insert d w file_path held' df_cleaned db_handler s1 \<and> m \<noteq> ''one_by_one'' \<and>
    insert_execute (store_lib d) (client db_handler) (table_name db_handler)
      (Many (to_dict_records df_cleaned)) s1 = (Inl e2, s2) \<longrightarrow>
      scrape_and_store d m w =
        (Inl \<lparr>exc_status_code = 500,
              exc_detail = Fields [(''error'', str_exn e2),
                                   (''message'', ''Failed to scrape and store data'')]\<rparr>,
         (held', s2)))"
proof (intro conjI impI)
  assume "insert_execute lib (client self) (table_name self) (Many records) s = (Inl e, s')"
  then show "insert_records lib self records s = (Inl e, s')"
    by (simp add: insert_records_def)
next
  assume a: "reaches_insert d w file_path held' df_cleaned db_handler s1 \<and> m \<noteq> ''one_by_one'' \<and>
    insert_execute (store_lib d) (client db_handler) (table_name db_handler)
      (Many (to_dict_records df_cleaned)) s1 = (Inl e2, s2)"
  then have "insert_records (store_lib d) db_handler (to_dict_records df_cleaned) s1 = (Inl e2, s2)"
    by (simp add: insert_records_def)
  with a have "scrape_and_store_try d m w = (Inl e2, (held', s2))"
    by (simp add: try_from_insert [of d w file_path held' df_cleaned db_handler s1])
  then show "scrape_and_store d m w =
        (Inl \<lparr>exc_status_code = 500,
              exc_detail = Fields [(''error'', str_exn e2),
                                   (''message'', ''Failed to scrape and store data'')]\<rparr>,
         (held', s2))"
    by (simp add: scrape_and_store_def)
qed

theorem bulk_failure_aborts_witness:
  "insert_execute unique_store (client sample_handler) (table_name sample_handler)
     (Many thirteen_records) [''10040''] = (Inl (OtherError ''duplicate key''), [''10040'']) \<and>
   insert_records unique_store sample_handler thirteen_records [''10040''] =
     (Inl (OtherError ''duplicate key''), [''10040'']) \<and>
   reaches_insert sample_deps ([], [''10040'']) sample_path [] cleaned_sample sample_handler
     [''10040''] \<and>
   scrape_and_store sample_deps ''bulk'' ([], [''10040'']) =
     (Inl \<lparr>exc_status_code = 500,
           exc_detail = Fields [(''error'', ''duplicate key''),
                                (''message'', ''Failed to scrape and store data'')]\<rparr>,
      ([], [''10040'']))"
proof -
  have r: "reaches_insert sample_deps ([], [''10040'']) sample_path [] cleaned_sample
             sample_handler [''10040'']"
    by (rule sample_reaches_insert)
  have b: "insert_execute unique_store (client sample_handler) (table_name sample_handler)
     (Many thirteen_records) [''10040''] = (Inl (OtherError ''duplicate key''), [''10040''])"
    by (simp add: unique_store_def thirteen_records_def code_record_def code_of_def)
  have m: "''bulk'' \<noteq> ''one_by_one''" by simp
  from bulk_failure_aborts
    [where d = sample_deps and w = "([], [''10040''])" and file_path = sample_path
       and held' = "[]" and df_cleaned = cleaned_sample and db_handler = sample_handler
       and ?s1.0 = "[''10040'']" and lib = unique_store and self = sample_handler
       and records = thirteen_records and s = "[''10040'']" and m = "''bulk''"
       and e = "OtherError ''duplicate key''" and s' = "[''10040'']"
       and ?e2.0 = "OtherError ''duplicate key''" and ?s2.0 = "[''10040'']"]
    r b m sample_bulk_rejected
  show ?thesis by simp
qed

section \<open>Downloading: resources are released\<close>

lemma setup_browser_acquires:
  "setup_browser api held = (Inr u, held1) \<Longrightarrow> held1 = Context # Browser # Playwright # held"
  by (auto simp: setup_browser_def split: option.splits)

lemma release_all_returns:
  assumes "context_close api = None" "browser_close api = None" "playwright_stop api = None"
  shows "release_all api (Context # Browser # Playwright # held) = (None, held)"
  using assms by (simp add: release_all_def)

text \<open>
  When \<open>setup_browser\<close> has acquired the three resources and the three release calls
  return, the function ends with the outcome of the download steps and the process
  holds what it held before the call.
\<close>

lemma download_releases_when_cleanup_returns:
  assumes "setup_browser api held = (Inr (), held1)"
      and "context_close api = None" "browser_close api = None" "playwright_stop api = None"
  shows "held1 = Context # Browser # Playwright # held \<and>
         download_excel_file self api held = (download_steps self api, held)"
proof -
  from assms(1) have h: "held1 = Context # Browser # Playwright # held"
    by (rule setup_browser_acquires)
  with assms(1) release_all_returns [OF assms(2-4), of held]
  have "download_excel_file self api held = (download_steps self api, held)"
    by (simp add: download_excel_file_def)
  with h show ?thesis by simp
qed

text \<open>
  Claim C4. For every outcome of the download, success or any raised automation error,
  the browser, the context and the playwright driver acquired at the start of
  \<open>download_excel_file\<close> are released before the function ends, and on failure the
  original error reaches the caller. The code does not keep this: \<open>setup_browser\<close> runs
  before the \<^verbatim>\<open>try\<close>, so when the launch fails the driver stays held, and when the
  page cannot be opened all three resources stay held; and the \<^verbatim>\<open>finally\<close> block makes
  its three calls unguarded, so when closing the context raises after the link timed out,
  the browser and the driver are never closed and the caller gets the error of the close
  call in place of the timeout.
\<close>

theorem download_leaks_resources:
  "download_excel_file sample_scraper launch_fails [] =
     (Inl (OtherError ''Failed to launch chromium''), [Playwright]) \<and>
   download_excel_file sample_scraper page_fails [] =
     (Inl (OtherError ''Target closed''), [Context, Browser, Playwright]) \<and>
   download_steps sample_scraper close_fails = Inl (OtherError ''Timeout 15000ms exceeded'') \<and>
   download_excel_file sample_scraper close_fails [] =
     (Inl (OtherError ''Target closed''), [Context, Browser, Playwright])"
  by (simp add: download_excel_file_def setup_browser_def release_all_def download_steps_def
      launch_fails_def page_fails_def close_fails_def link_timeout_def smooth_run_def
      sample_scraper_def)

section \<open>The endpoints: configuration errors and failures\<close>

lemma init_without_credentials:
  "credentials_missing env \<Longrightarrow> SupabaseHandler_init lib env s = (Inl missing_credentials, s)"
  by (auto simp: credentials_missing_def SupabaseHandler_init_def split: option.splits)

text \<open>
  Claim C5, amended. If either of the two store credentials is absent or empty,
  constructing the store handler raises the ValueError "Missing Supabase credentials in
  environment variables", whatever the client library would do: no client is created
  and the outside world is left as it was. The handler is constructed inside the
  endpoints, so the error is answered per request (\<^verbatim>\<open>/test-supabase\<close> raises an HTTP
  error with status 500); the start of the application does not read the credentials
  and does not fail.
\<close>

theorem missing_credentials_raise:
  assumes "credentials_missing env"
  shows "SupabaseHandler_init lib env s = (Inl missing_credentials, s) \<and>
         missing_credentials = ValueError ''Missing Supabase credentials in environment variables'' \<and>
         test_supabase (d\<lparr>environ := env\<rparr>) s' =
           (Inl \<lparr>exc_status_code = 500,
                 exc_detail = Text ''Missing Supabase credentials in environment variables''\<rparr>, s') \<and>
         \<not> isl (import_main env)"
proof -
  note i = init_without_credentials [OF assms]
  have t: "test_supabase (d\<lparr>environ := env\<rparr>) s' =
      (Inl \<lparr>exc_status_code = 500, exc_detail = Text (str_exn missing_credentials)\<rparr>, s')"
    by (simp add: test_supabase_def test_supabase_try_def i)
  show ?thesis
    using i [of lib s] t by (simp add: missing_credentials_def import_main_def)
qed

theorem missing_credentials_raise_witness:
  "credentials_missing [''SUPABASE_URL'' \<mapsto> ''https://example.supabase.co'', ''SUPABASE_KEY'' \<mapsto> ''''] \<and>
   SupabaseHandler_init unique_store
     [''SUPABASE_URL'' \<mapsto> ''https://example.supabase.co'', ''SUPABASE_KEY'' \<mapsto> ''''] [] =
     (Inl (ValueError ''Missing Supabase credentials in environment variables''), [])"
proof -
  have c: "credentials_missing
      [''SUPABASE_URL'' \<mapsto> ''https://example.supabase.co'', ''SUPABASE_KEY'' \<mapsto> '''']"
    by (simp add: credentials_missing_def)
  from missing_credentials_raise [OF c, of unique_store "[]" sample_deps "[]"] c
  show ?thesis by simp
qed

text \<open>
  Claim C5 as stated fails: with an empty environment the application starts, and the
  missing credentials only show as the status 500 of a request that needs the store.
\<close>

theorem not_fatal_at_startup:
  "credentials_missing Map.empty \<and> \<not> isl (import_main Map.empty) \<and>
   test_supabase no_credentials [] =
     (Inl \<lparr>exc_status_code = 500,
           exc_detail = Text ''Missing Supabase credentials in environment variables''\<rparr>, [])"
  by (simp add: credentials_missing_def import_main_def no_credentials_def sample_deps_def
      test_supabase_def test_supabase_try_def SupabaseHandler_init_def missing_credentials_def)

text \<open>
  Claim C6, amended. Whenever the pipeline of an endpoint raises, the endpoint raises an
  HTTP error with status 500. For \<^verbatim>\<open>/scrape-and-store\<close> its detail is an object with
  an error field (the text of the exception) and a message field; for
  \<^verbatim>\<open>/test-download\<close> and \<^verbatim>\<open>/test-supabase\<close> the detail is the text of the
  exception alone.
\<close>

theorem pipeline_failure_status:
  "(scrape_and_store_try d m w = (Inl e1, w') \<longrightarrow>
      scrape_and_store d m w =
        (Inl \<lparr>exc_status_code = 500,
              exc_detail = Fields [(''error'', str_exn e1),
                                   (''message'', ''Failed to scrape and store data'')]\<rparr>, w') \<and>
      has_field ''error'' (Fields [(''error'', str_exn e1),
                                   (''message'', ''Failed to scrape and store data'')]) \<and>
      has_field ''message'' (Fields [(''error'', str_exn e1),
                                   (''message'', ''Failed to scrape and store data'')])) \<and>
   (test_download_try d held = (Inl e2, held') \<longrightarrow>
      test_download d held =
        (Inl \<lparr>exc_status_code = 500, exc_detail = Text (str_exn e2)\<rparr>, held')) \<and>
   (test_supabase_try d s = (Inl e3, s') \<longrightarrow>
      test_supabase d s =
        (Inl \<lparr>exc_status_code = 500, exc_detail = Text (str_exn e3)\<rparr>, s'))"
  by (simp add: scrape_and_store_def test_download_def test_supabase_def)

lemma link_timeout_download:
  "download_excel_file \<lparr>download_dir = ''downloads'', url = u\<rparr> link_timeout held =
     (Inl (OtherError ''Timeout 15000ms exceeded''), held)"
  by (simp add: download_excel_file_def setup_browser_def release_all_def download_steps_def
      link_timeout_def smooth_run_def)

theorem pipeline_failure_status_witness:
  "scrape_and_store_try failing_deps ''bulk'' ([], []) =
     (Inl (OtherError ''Timeout 15000ms exceeded''), ([], [])) \<and>
   scrape_and_store failing_deps ''bulk'' ([], []) =
     (Inl \<lparr>exc_status_code = 500,
           exc_detail = Fields [(''error'', ''Timeout 15000ms exceeded''),
                                (''message'', ''Failed to scrape and store data'')]\<rparr>, ([], [])) \<and>
   test_download_try failing_deps [] = (Inl (OtherError ''Timeout 15000ms exceeded''), []) \<and>
   test_download failing_deps [] =
     (Inl \<lparr>exc_status_code = 500, exc_detail = Text ''Timeout 15000ms exceeded''\<rparr>, []) \<and>
   test_supabase_try failing_deps [] = (Inl missing_credentials, []) \<and>
   test_supabase failing_deps [] =
     (Inl \<lparr>exc_status_code = 500,
           exc_detail = Text ''Missing Supabase credentials in environment variables''\<rparr>, [])"
proof -
  have p: "playwright failing_deps = link_timeout" "mkdir failing_deps = None"
    "environ failing_deps = Map.empty"
    by (simp_all add: failing_deps_def no_credentials_def sample_deps_def)
  have a: "scrape_and_store_try failing_deps ''bulk'' ([], []) =
     (Inl (OtherError ''Timeout 15000ms exceeded''), ([], []))"
    by (simp add: scrape_and_store_try_def p NJMedicalScraper_init_def link_timeout_download)
  have b: "test_download_try failing_deps [] = (Inl (OtherError ''Timeout 15000ms exceeded''), [])"
    by (simp add: test_download_try_def p NJMedicalScraper_init_def link_timeout_download)
  have c: "test_supabase_try failing_deps [] = (Inl missing_credentials, [])"
    by (simp add: test_supabase_try_def p SupabaseHandler_init_def)
  from pipeline_failure_status
    [where d = failing_deps and m = "''bulk''" and w = "([], [])" and w' = "([], [])"
       and ?e1.0 = "OtherError ''Timeout 15000ms exceeded''" and held = "[]" and held' = "[]"
       and ?e2.0 = "OtherError ''Timeout 15000ms exceeded''" and s = "[]" and s' = "[]"
       and ?e3.0 = missing_credentials] a b c
  show ?thesis by (simp add: missing_credentials_def)
qed

text \<open>
  Claim C6 as stated fails: \<^verbatim>\<open>/test-supabase\<close> without credentials is a pipeline
  failure answered with status 500, and its detail is a string, with neither an error
  nor a message field.
\<close>

theorem test_endpoint_detail_is_text:
  "test_supabase_try no_credentials [] = (Inl missing_credentials, []) \<and>
   map_sum exc_detail id (fst (test_supabase no_credentials [])) =
     Inl (Text ''Missing Supabase credentials in environment variables'') \<and>
   \<not> has_field ''error'' (Text ''Missing Supabase credentials in environment variables'') \<and>
   \<not> has_field ''message'' (Text ''Missing Supabase credentials in environment variables'')"
  by (simp add: no_credentials_def sample_deps_def test_supabase_def test_supabase_try_def
      SupabaseHandler_init_def missing_credentials_def)

end
